theory Spec2Isabelle
  imports Main
begin

section \<open>Python values, dictionaries and text\<close>

text \<open>
  The program is the single Python module \<^verbatim>\<open>.dev-team/implementations/project.py\<close>:
  a class \<^verbatim>\<open>CrumbleBakeryImplementation\<close> whose four methods return dictionary
  displays, and a function \<^verbatim>\<open>main\<close> that prints them.

  A \<open>string\<close> holds the text of a Python \<^verbatim>\<open>str\<close> as the bytes of its UTF-8 encoding,
  which is how the literals stand in the source file. The only character outside ASCII is
  the check mark U+2713, the three bytes \<open>E2 9C 93\<close>.

  The values that occur inside the dictionaries are strings, one boolean and nested
  dictionaries. A dictionary keeps its entries in insertion order, so it is an association
  list; every key of the program is a string.
\<close>

datatype py_value =
    Str string
  | Bool bool
  | Dict "(string \<times> py_value) list"

type_synonym py_dict = "(string \<times> py_value) list"

text \<open>
  \<^verbatim>\<open>d[k] = v\<close>: a key already present keeps its position and takes the new value, a new
  key goes to the end.
\<close>

fun dict_setitem :: "py_dict \<Rightarrow> string \<Rightarrow> py_value \<Rightarrow> py_dict" where
  "dict_setitem [] k v = [(k, v)]"
| "dict_setitem ((k', v') # d) k v =
     (if k' = k then (k', v) # d else (k', v') # dict_setitem d k v)"

text \<open>
  A dictionary display \<^verbatim>\<open>{k1: v1, ..., kn: vn}\<close> starts from the empty dictionary and
  stores the entries from left to right.
\<close>

definition dict_display :: "(string \<times> py_value) list \<Rightarrow> py_dict" where
  "dict_display kvs = foldl (\<lambda>d kv. dict_setitem d (fst kv) (snd kv)) [] kvs"

text \<open>\<^verbatim>\<open>d.items()\<close>, \<^verbatim>\<open>d.keys()\<close>, \<^verbatim>\<open>d.values()\<close> and \<^verbatim>\<open>len(d)\<close>.\<close>

definition items :: "py_dict \<Rightarrow> (string \<times> py_value) list" where
  "items d = d"

definition keys :: "py_dict \<Rightarrow> string list" where
  "keys d = map fst d"

definition values_of :: "py_dict \<Rightarrow> py_value list" where
  "values_of d = map snd d"

definition len :: "py_dict \<Rightarrow> nat" where
  "len d = length d"

text \<open>\<^verbatim>\<open>d.get(k)\<close>: the value stored under \<open>k\<close>, \<open>None\<close> when there is none.\<close>

fun dict_get :: "py_dict \<Rightarrow> string \<Rightarrow> py_value option" where
  "dict_get [] k = None"
| "dict_get ((k', v') # d) k = (if k' = k then Some v' else dict_get d k)"

subsection \<open>\<^verbatim>\<open>repr\<close> and \<^verbatim>\<open>str\<close>\<close>

text \<open>
  An f-string field \<^verbatim>\<open>{x}\<close> formats \<open>x\<close> with \<^verbatim>\<open>str\<close>. For a string that is the string
  itself, for a boolean \<^verbatim>\<open>True\<close> or \<^verbatim>\<open>False\<close>, and for a dictionary it is \<^verbatim>\<open>repr\<close>:
  the entries in order as \<^verbatim>\<open>repr(k): repr(v)\<close>, separated by a comma and a space, within
  braces.

  \<^verbatim>\<open>repr\<close> of a string quotes it with \<^verbatim>\<open>'\<close>, or with \<^verbatim>\<open>"\<close> when the string has a \<^verbatim>\<open>'\<close> and
  no \<^verbatim>\<open>"\<close>, and escapes the backslash, the quote in use, tab, newline, carriage return
  and the other ASCII control characters (as \<^verbatim>\<open>\xhh\<close>).
\<close>

definition newline :: char where
  "newline = CHR 0x0A"

definition hex_digit :: "nat \<Rightarrow> char" where
  "hex_digit n = (''0123456789abcdef'') ! (n mod 16)"

definition repr_char :: "char \<Rightarrow> char \<Rightarrow> string" where
  "repr_char q c =
     (if c = CHR 0x5C then [CHR 0x5C, CHR 0x5C]
      else if c = q then [CHR 0x5C, q]
      else if c = CHR 0x09 then [CHR 0x5C, CHR ''t'']
      else if c = CHR 0x0A then [CHR 0x5C, CHR ''n'']
      else if c = CHR 0x0D then [CHR 0x5C, CHR ''r'']
      else if of_char c < (32::nat) \<or> of_char c = (127::nat)
        then [CHR 0x5C, CHR ''x'', hex_digit (of_char c div 16), hex_digit (of_char c)]
      else [c])"

definition repr_str :: "string \<Rightarrow> string" where
  "repr_str s =
     (let q = (if CHR 0x27 \<in> set s \<and> CHR 0x22 \<notin> set s then CHR 0x22 else CHR 0x27)
      in [q] @ concat (map (repr_char q) s) @ [q])"

fun join :: "string \<Rightarrow> string list \<Rightarrow> string" where
  "join sep [] = []"
| "join sep [x] = x"
| "join sep (x # y # ys) = x @ sep @ join sep (y # ys)"

fun repr :: "py_value \<Rightarrow> string" where
  "repr (Str s) = repr_str s"
| "repr (Bool b) = (if b then ''True'' else ''False'')"
| "repr (Dict d) =
     ''{'' @ join '', '' (map (\<lambda>kv. repr_str (fst kv) @ '': '' @ repr (snd kv)) d) @ ''}''"

fun str :: "py_value \<Rightarrow> string" where
  "str (Str s) = s"
| "str v = repr v"

text \<open>
  \<^verbatim>\<open>s.startswith(p)\<close> and \<^verbatim>\<open>sub in s\<close> on strings, and the lines of a text: every
  newline ends a line, and text after the last newline is a line of its own.
\<close>

definition startswith :: "string \<Rightarrow> string \<Rightarrow> bool" where
  "startswith s p = (take (length p) s = p)"

fun contains :: "string \<Rightarrow> string \<Rightarrow> bool" where
  "contains sub [] = (sub = [])"
| "contains sub (c # cs) = (startswith (c # cs) sub \<or> contains sub cs)"

fun lines_from :: "string \<Rightarrow> string \<Rightarrow> string list" where
  "lines_from cur [] = (if cur = [] then [] else [cur])"
| "lines_from cur (c # cs) =
     (if c = newline then cur # lines_from [] cs else lines_from (cur @ [c]) cs)"

definition splitlines :: "string \<Rightarrow> string list" where
  "splitlines s = lines_from [] s"

section \<open>The class \<^verbatim>\<open>CrumbleBakeryImplementation\<close>\<close>

text \<open>
  An instance has the four attributes that \<^verbatim>\<open>__init__\<close> sets. A method takes the instance
  and returns its result together with the instance as the call leaves it.
\<close>

record report =
  project_name :: string
  file_count :: int
  max_lines_per_file :: int
  tech_stack :: "string list"

definition CrumbleBakeryImplementation :: report where
  "CrumbleBakeryImplementation =
     \<lparr>project_name = ''Crumble Bakery'',
      file_count = 2,
      max_lines_per_file = 100,
      tech_stack = [''HTML5'', ''CSS3'']\<rparr>"

definition check_mark :: string where
  "check_mark = [CHR 0xE2, CHR 0x9C, CHR 0x93]"

definition get_architecture_compliance :: "report \<Rightarrow> py_dict \<times> report" where
  "get_architecture_compliance self =
     (dict_display
       [(''file_count'', Str (check_mark @ '' Exactly 2 files (index.html, style.css)'')),
        (''line_limits'', Str (check_mark @ '' Both files under 100 lines'')),
        (''no_javascript'', Str (check_mark @ '' Pure HTML/CSS implementation'')),
        (''no_external_libs'',
           Str (check_mark @ '' No Bootstrap, Tailwind, or external fonts'')),
        (''semantic_html'', Str (check_mark @ '' Proper semantic tags used'')),
        (''mobile_first'', Str (check_mark @ '' Mobile-first responsive design'')),
        (''form_submission'', Str (check_mark @ '' Pure HTML form with POST method''))],
      self)"

definition get_technical_features :: "report \<Rightarrow> py_dict \<times> report" where
  "get_technical_features self =
     (dict_display
       [(''responsive_design'', Dict (dict_display
           [(''approach'', Str ''Mobile-first with single @media breakpoint at 480px''),
            (''layout'', Str ''Flexbox for vertical/horizontal centering'')])),
        (''color_scheme'', Dict (dict_display
           [(''background'', Str ''#faf8f5 (warm cream)''),
            (''primary_text'', Str ''#333333 (dark gray)''),
            (''accent'', Str ''#8b4513 (saddle brown)'')])),
        (''typography'', Dict (dict_display
           [(''font_stack'', Str ''system-ui, -apple-system, sans-serif''),
            (''no_external_fonts'', Bool True)])),
        (''form_handling'', Dict (dict_display
           [(''method'', Str ''POST''),
            (''validation'', Str ''HTML5 required attribute''),
            (''accessibility'', Str ''ARIA labels for screen readers'')]))],
      self)"

definition get_error_handling :: "report \<Rightarrow> py_dict \<times> report" where
  "get_error_handling self =
     (dict_display
       [(''css_fallbacks'', Str ''System font stack ensures text renders''),
        (''form_validation'',
           Str ''HTML5 required attribute prevents empty submissions''),
        (''accessibility'', Str ''ARIA labels and semantic HTML for screen readers''),
        (''graceful_degradation'', Str ''Works without CSS (semantic HTML structure)'')],
      self)"

definition get_deployment_notes :: "report \<Rightarrow> py_dict \<times> report" where
  "get_deployment_notes self =
     (dict_display
       [(''hosting'', Str ''Can be hosted on any static web server''),
        (''dependencies'', Str ''None - completely self-contained''),
        (''browser_support'', Str ''All modern browsers (IE11+)''),
        (''performance'', Str ''Minimal HTTP requests, no external resources''),
        (''seo_ready'', Str ''Semantic HTML with proper meta tags'')],
      self)"

section \<open>The driver \<^verbatim>\<open>main\<close>\<close>

text \<open>
  Standard output is the text written so far. \<^verbatim>\<open>print(s)\<close> writes \<open>s\<close> and a newline.
  Here the stream accepts every string; the driver on a stream that can refuse a string
  follows below.
\<close>

definition print :: "string \<Rightarrow> string \<Rightarrow> string" where
  "print s out = out @ s @ [newline]"

text \<open>
  The first loop prints the value of each entry alone:
  \<^verbatim>\<open>for requirement, status in ....items(): print(f"   {status}")\<close>.
\<close>

fun print_statuses :: "(string \<times> py_value) list \<Rightarrow> string \<Rightarrow> string" where
  "print_statuses [] out = out"
| "print_statuses ((requirement, status) # rest) out =
     print_statuses rest (print (''   '' @ str status) out)"

text \<open>
  The other three loops print key and value:
  \<^verbatim>\<open>for aspect, note in ....items(): print(f"   {aspect}: {note}")\<close>.
\<close>

fun print_entries :: "(string \<times> py_value) list \<Rightarrow> string \<Rightarrow> string" where
  "print_entries [] out = out"
| "print_entries ((aspect, note) # rest) out =
     print_entries rest (print (''   '' @ aspect @ '': '' @ str note) out)"

definition main :: "string \<Rightarrow> string" where
  "main out0 =
     (let bakery = CrumbleBakeryImplementation;
          out1 = print (''=== '' @ project_name bakery @
                        '' Implementation Documentation ==='') out0;
          out2 = print (newline # ''1. Architecture Compliance:'') out1;
          (compliance, bakery) = get_architecture_compliance bakery;
          out3 = print_statuses (items compliance) out2;
          out4 = print (newline # ''2. Technical Features:'') out3;
          (features, bakery) = get_technical_features bakery;
          out5 = print_entries (items features) out4;
          out6 = print (newline # ''3. Error Handling:'') out5;
          (error_handling, bakery) = get_error_handling bakery;
          out7 = print_entries (items error_handling) out6;
          out8 = print (newline # ''4. Deployment Notes:'') out7;
          (deployment, bakery) = get_deployment_notes bakery;
          out9 = print_entries (items deployment) out8
      in out9)"

section \<open>The driver on a stream with an encoding\<close>














section \<open>Notions used to state the properties\<close>

text \<open>
  The text made of the given lines, each ended by a newline; the line the first loop
  prints for an entry, and the line the other loops print; a string within single quotes;
  and a compliance status that begins with the check mark and a space.
\<close>

definition unlines :: "string list \<Rightarrow> string" where
  "unlines ls = concat (map (\<lambda>l. l @ [newline]) ls)"

definition status_line :: "string \<times> py_value \<Rightarrow> string" where
  "status_line kv = ''   '' @ str (snd kv)"

definition entry_line :: "string \<times> py_value \<Rightarrow> string" where
  "entry_line kv = ''   '' @ fst kv @ '': '' @ str (snd kv)"

definition sq :: "string \<Rightarrow> string" where
  "sq s = [CHR 0x27] @ s @ [CHR 0x27]"

fun is_checked :: "py_value \<Rightarrow> bool" where
  "is_checked (Str s) = startswith s (check_mark @ '' '')"
| "is_checked v = False"

text \<open>The lines of the program's output, written out.\<close>

definition program_lines :: "string list" where
  "program_lines =
    [''=== Crumble Bakery Implementation Documentation ==='',
     [],
     ''1. Architecture Compliance:'',
     ''   '' @ check_mark @ '' Exactly 2 files (index.html, style.css)'',
     ''   '' @ check_mark @ '' Both files under 100 lines'',
     ''   '' @ check_mark @ '' Pure HTML/CSS implementation'',
     ''   '' @ check_mark @ '' No Bootstrap, Tailwind, or external fonts'',
     ''   '' @ check_mark @ '' Proper semantic tags used'',
     ''   '' @ check_mark @ '' Mobile-first responsive design'',
     ''   '' @ check_mark @ '' Pure HTML form with POST method'',
     [],
     ''2. Technical Features:'',
     ''   responsive_design: {'' @ sq ''approach'' @ '': '' @
        sq ''Mobile-first with single @media breakpoint at 480px'' @ '', '' @
        sq ''layout'' @ '': '' @ sq ''Flexbox for vertical/horizontal centering'' @ ''}'',
     ''   color_scheme: {'' @ sq ''background'' @ '': '' @ sq ''#faf8f5 (warm cream)'' @ '', '' @
        sq ''primary_text'' @ '': '' @ sq ''#333333 (dark gray)'' @ '', '' @
        sq ''accent'' @ '': '' @ sq ''#8b4513 (saddle brown)'' @ ''}'',
     ''   typography: {'' @ sq ''font_stack'' @ '': '' @
        sq ''system-ui, -apple-system, sans-serif'' @ '', '' @
        sq ''no_external_fonts'' @ '': True}'',
     ''   form_handling: {'' @ sq ''method'' @ '': '' @ sq ''POST'' @ '', '' @
        sq ''validation'' @ '': '' @ sq ''HTML5 required attribute'' @ '', '' @
        sq ''accessibility'' @ '': '' @ sq ''ARIA labels for screen readers'' @ ''}'',
     [],
     ''3. Error Handling:'',
     ''   css_fallbacks: System font stack ensures text renders'',
     ''   form_validation: HTML5 required attribute prevents empty submissions'',
     ''   accessibility: ARIA labels and semantic HTML for screen readers'',
     ''   graceful_degradation: Works without CSS (semantic HTML structure)'',
     [],
     ''4. Deployment Notes:'',
     ''   hosting: Can be hosted on any static web server'',
     ''   dependencies: None - completely self-contained'',
     ''   browser_support: All modern browsers (IE11+)'',
     ''   performance: Minimal HTTP requests, no external resources'',
     ''   seo_ready: Semantic HTML with proper meta tags'']"

definition title_line :: string where
  "title_line = ''=== Crumble Bakery Implementation Documentation ===''"

section \<open>The dictionaries the methods return\<close>

lemma architecture_compliance_entries:
  "fst (get_architecture_compliance self) =
     [(''file_count'', Str (check_mark @ '' Exactly 2 files (index.html, style.css)'')),
      (''line_limits'', Str (check_mark @ '' Both files under 100 lines'')),
      (''no_javascript'', Str (check_mark @ '' Pure HTML/CSS implementation'')),
      (''no_external_libs'', Str (check_mark @ '' No Bootstrap, Tailwind, or external fonts'')),
      (''semantic_html'', Str (check_mark @ '' Proper semantic tags used'')),
      (''mobile_first'', Str (check_mark @ '' Mobile-first responsive design'')),
      (''form_submission'', Str (check_mark @ '' Pure HTML form with POST method''))]"
  by (simp add: get_architecture_compliance_def dict_display_def)

lemma technical_features_entries:
  "fst (get_technical_features self) =
     [(''responsive_design'', Dict
         [(''approach'', Str ''Mobile-first with single @media breakpoint at 480px''),
          (''layout'', Str ''Flexbox for vertical/horizontal centering'')]),
      (''color_scheme'', Dict
         [(''background'', Str ''#faf8f5 (warm cream)''),
          (''primary_text'', Str ''#333333 (dark gray)''),
          (''accent'', Str ''#8b4513 (saddle brown)'')]),
      (''typography'', Dict
         [(''font_stack'', Str ''system-ui, -apple-system, sans-serif''),
          (''no_external_fonts'', Bool True)]),
      (''form_handling'', Dict
         [(''method'', Str ''POST''),
          (''validation'', Str ''HTML5 required attribute''),
          (''accessibility'', Str ''ARIA labels for screen readers'')])]"
  by (simp add: get_technical_features_def dict_display_def)

lemma error_handling_entries:
  "fst (get_error_handling self) =
     [(''css_fallbacks'', Str ''System font stack ensures text renders''),
      (''form_validation'', Str ''HTML5 required attribute prevents empty submissions''),
      (''accessibility'', Str ''ARIA labels and semantic HTML for screen readers''),
      (''graceful_degradation'', Str ''Works without CSS (semantic HTML structure)'')]"
  by (simp add: get_error_handling_def dict_display_def)

lemma deployment_notes_entries:
  "fst (get_deployment_notes self) =
     [(''hosting'', Str ''Can be hosted on any static web server''),
      (''dependencies'', Str ''None - completely self-contained''),
      (''browser_support'', Str ''All modern browsers (IE11+)''),
      (''performance'', Str ''Minimal HTTP requests, no external resources''),
      (''seo_ready'', Str ''Semantic HTML with proper meta tags'')]"
  by (simp add: get_deployment_notes_def dict_display_def)

lemma accessor_self:
  "snd (get_architecture_compliance self) = self"
  "snd (get_technical_features self) = self"
  "snd (get_error_handling self) = self"
  "snd (get_deployment_notes self) = self"
  by (simp_all add: get_architecture_compliance_def get_technical_features_def
      get_error_handling_def get_deployment_notes_def)

section \<open>What the driver writes\<close>

lemma lines_from_line:
  "newline \<notin> set l \<Longrightarrow> lines_from cur (l @ newline # rest) = (cur @ l) # lines_from [] rest"
  by (induction l arbitrary: cur) auto

lemma splitlines_unlines:
  "list_all (\<lambda>l. newline \<notin> set l) ls \<Longrightarrow> splitlines (unlines ls) = ls"
  unfolding splitlines_def unlines_def
  by (induction ls) (auto simp: lines_from_line)

lemma unlines_Cons: "unlines (l # ls) = l @ newline # unlines ls"
  by (simp add: unlines_def)

lemma unlines_append: "unlines (xs @ ys) = unlines xs @ unlines ys"
  by (simp add: unlines_def)

lemma print_statuses_unlines:
  "print_statuses kvs out = out @ unlines (map status_line kvs)"
  by (induction kvs arbitrary: out) (auto simp: print_def unlines_def status_line_def)

lemma print_entries_unlines:
  "print_entries kvs out = out @ unlines (map entry_line kvs)"
  by (induction kvs arbitrary: out) (auto simp: print_def unlines_def entry_line_def)

lemma main_layout:
  "main out = out @ unlines
     ([''=== '' @ project_name CrumbleBakeryImplementation @ '' Implementation Documentation ==='']
      @ [[], ''1. Architecture Compliance:'']
      @ map status_line (items (fst (get_architecture_compliance CrumbleBakeryImplementation)))
      @ [[], ''2. Technical Features:'']
      @ map entry_line (items (fst (get_technical_features CrumbleBakeryImplementation)))
      @ [[], ''3. Error Handling:'']
      @ map entry_line (items (fst (get_error_handling CrumbleBakeryImplementation)))
      @ [[], ''4. Deployment Notes:'']
      @ map entry_line (items (fst (get_deployment_notes CrumbleBakeryImplementation))))"
  unfolding main_def Let_def split_beta accessor_self print_statuses_unlines print_entries_unlines
    print_def unlines_append unlines_Cons
  by (simp add: unlines_def)


lemma layout_lines:
  "[''=== '' @ project_name CrumbleBakeryImplementation @ '' Implementation Documentation ==='']
      @ [[], ''1. Architecture Compliance:'']
      @ map status_line (items (fst (get_architecture_compliance CrumbleBakeryImplementation)))
      @ [[], ''2. Technical Features:'']
      @ map entry_line (items (fst (get_technical_features CrumbleBakeryImplementation)))
      @ [[], ''3. Error Handling:'']
      @ map entry_line (items (fst (get_error_handling CrumbleBakeryImplementation)))
      @ [[], ''4. Deployment Notes:'']
      @ map entry_line (items (fst (get_deployment_notes CrumbleBakeryImplementation)))
    = program_lines"
  unfolding program_lines_def
  by (simp add: architecture_compliance_entries technical_features_entries
      error_handling_entries deployment_notes_entries items_def status_line_def entry_line_def
      CrumbleBakeryImplementation_def repr_str_def repr_char_def sq_def check_mark_def Let_def)

lemma main_text: "main [] = unlines program_lines"
  by (simp only: main_layout [of "[]"] layout_lines append_Nil)

lemma program_lines_no_newline: "list_all (\<lambda>l. newline \<notin> set l) program_lines"
  by (simp add: program_lines_def newline_def check_mark_def sq_def)

lemma main_lines: "splitlines (main []) = program_lines"
  by (simp add: main_text splitlines_unlines program_lines_no_newline)

lemma title_line_project_name:
  "''=== '' @ project_name CrumbleBakeryImplementation @ '' Implementation Documentation ===''
     = title_line"
  by (simp add: CrumbleBakeryImplementation_def title_line_def)

lemma unindented_program_lines:
  "filter (\<lambda>l. l \<noteq> [] \<and> \<not> startswith l '' '') program_lines =
     [title_line, ''1. Architecture Compliance:'', ''2. Technical Features:'',
      ''3. Error Handling:'', ''4. Deployment Notes:'']"
  by (simp add: program_lines_def startswith_def title_line_def)

lemma file_count_not_in_program_lines:
  "\<not> list_ex (contains ''file_count'') program_lines"
  by (simp add: program_lines_def startswith_def check_mark_def sq_def)

section \<open>The driver on the two encodings\<close>









section \<open>The properties\<close>

text \<open>
  C1, as the program has it. The dictionaries of the four methods have fixed numbers of
  entries: seven for the architecture compliance, four for the error handling, four for
  the technical features, and five (not four) for the deployment notes, whose display has
  the keys hosting, dependencies, browser_support, performance and seo_ready.
\<close>

theorem entry_counts:
  "len (fst (get_architecture_compliance self)) = 7 \<and>
   len (fst (get_error_handling self)) = 4 \<and>
   len (fst (get_deployment_notes self)) = 5 \<and>
   len (fst (get_technical_features self)) = 4"
  by (simp add: len_def architecture_compliance_entries error_handling_entries
      deployment_notes_entries technical_features_entries)

text \<open>
  C1 as stated asks for exactly four deployment notes; the dictionary of the constructed
  instance has another number of entries.
\<close>

theorem deployment_notes_count_counterexample:
  "len (fst (get_deployment_notes CrumbleBakeryImplementation)) \<noteq> 4"
  by (simp add: len_def deployment_notes_entries)

text \<open>
  C6. The architecture compliance dictionary has the key \<^verbatim>\<open>file_count\<close>, and the text
  \<^verbatim>\<open>2\<close> occurs in its value.
\<close>

theorem file_count_entry:
  "dict_get (fst (get_architecture_compliance self)) ''file_count''
     = Some (Str (check_mark @ '' Exactly 2 files (index.html, style.css)'')) \<and>
   contains ''2'' (check_mark @ '' Exactly 2 files (index.html, style.css)'')"
  by (simp add: architecture_compliance_entries check_mark_def startswith_def)

text \<open>
  C9. Every value of the architecture compliance dictionary is a string that starts with
  the check mark followed by a space.
\<close>

theorem compliance_values_checked:
  "list_all is_checked (values_of (fst (get_architecture_compliance self)))"
  by (simp add: architecture_compliance_entries values_of_def startswith_def check_mark_def)

text \<open>
  C10. The first line of the output is the title line, built from the attribute
  \<^verbatim>\<open>project_name\<close> of the instance; it reads
  \<^verbatim>\<open>=== Crumble Bakery Implementation Documentation ===\<close>.
\<close>

theorem title_line_first:
  "take 1 (splitlines (main [])) =
     [''=== '' @ project_name CrumbleBakeryImplementation @
      '' Implementation Documentation ===''] \<and>
   ''=== '' @ project_name CrumbleBakeryImplementation @ '' Implementation Documentation ===''
     = title_line"
  by (simp add: main_lines program_lines_def CrumbleBakeryImplementation_def title_line_def)

text \<open>
  C2, as the program has it. The output is the title line and then four sections, in the
  order architecture compliance, technical features, error handling, deployment notes.
  A section is an empty line, the header line, which carries the number of the section
  (\<^verbatim>\<open>1. Architecture Compliance:\<close>, \<^verbatim>\<open>2. Technical Features:\<close>, \<^verbatim>\<open>3. Error Handling:\<close>,
  \<^verbatim>\<open>4. Deployment Notes:\<close>), and one line for each entry of the dictionary, in insertion
  order. Under the first header the line of an entry is three spaces and the value alone;
  under the other three it is three spaces, the key, a colon, a space and the value as
  \<^verbatim>\<open>str\<close> gives it (for the technical features, the text of the nested dictionary). The
  title and the four headers are the only lines that are neither empty nor indented.
\<close>

theorem driver_layout:
  "splitlines (main []) =
     [title_line]
     @ [[], ''1. Architecture Compliance:'']
     @ map status_line (items (fst (get_architecture_compliance CrumbleBakeryImplementation)))
     @ [[], ''2. Technical Features:'']
     @ map entry_line (items (fst (get_technical_features CrumbleBakeryImplementation)))
     @ [[], ''3. Error Handling:'']
     @ map entry_line (items (fst (get_error_handling CrumbleBakeryImplementation)))
     @ [[], ''4. Deployment Notes:'']
     @ map entry_line (items (fst (get_deployment_notes CrumbleBakeryImplementation))) \<and>
   filter (\<lambda>l. l \<noteq> [] \<and> \<not> startswith l '' '') (splitlines (main [])) =
     [title_line, ''1. Architecture Compliance:'', ''2. Technical Features:'',
      ''3. Error Handling:'', ''4. Deployment Notes:'']"
proof -
  have "splitlines (main []) =
     [''=== '' @ project_name CrumbleBakeryImplementation @ '' Implementation Documentation ==='']
     @ [[], ''1. Architecture Compliance:'']
     @ map status_line (items (fst (get_architecture_compliance CrumbleBakeryImplementation)))
     @ [[], ''2. Technical Features:'']
     @ map entry_line (items (fst (get_technical_features CrumbleBakeryImplementation)))
     @ [[], ''3. Error Handling:'']
     @ map entry_line (items (fst (get_error_handling CrumbleBakeryImplementation)))
     @ [[], ''4. Deployment Notes:'']
     @ map entry_line (items (fst (get_deployment_notes CrumbleBakeryImplementation)))"
    by (simp only: main_lines layout_lines)
  then show ?thesis
    by (simp only: title_line_project_name main_lines unindented_program_lines simp_thms)
qed

text \<open>
  C2 as stated asks for a line \<^verbatim>\<open>key: value\<close> for every entry under every header. The
  architecture compliance dictionary has the key \<^verbatim>\<open>file_count\<close>, and no line of the
  output contains that key.
\<close>

theorem compliance_key_not_printed_counterexample:
  "dict_get (fst (get_architecture_compliance CrumbleBakeryImplementation)) ''file_count''
     = Some (Str (check_mark @ '' Exactly 2 files (index.html, style.css)'')) \<and>
   \<not> list_ex (contains ''file_count'') (splitlines (main []))"
  by (simp add: main_lines file_count_not_in_program_lines architecture_compliance_entries)




text \<open>
  C4. Two calls of the same method, on any two states of the instance (so also on the
  instance as the first call has left it), return dictionaries with the same set of keys
  and the same set of values.
\<close>

theorem accessors_repeatable:
  "set (keys (fst (get_architecture_compliance r))) =
     set (keys (fst (get_architecture_compliance r'))) \<and>
   set (values_of (fst (get_architecture_compliance r))) =
     set (values_of (fst (get_architecture_compliance r'))) \<and>
   set (keys (fst (get_technical_features r))) =
     set (keys (fst (get_technical_features r'))) \<and>
   set (values_of (fst (get_technical_features r))) =
     set (values_of (fst (get_technical_features r'))) \<and>
   set (keys (fst (get_error_handling r))) =
     set (keys (fst (get_error_handling r'))) \<and>
   set (values_of (fst (get_error_handling r))) =
     set (values_of (fst (get_error_handling r'))) \<and>
   set (keys (fst (get_deployment_notes r))) =
     set (keys (fst (get_deployment_notes r'))) \<and>
   set (values_of (fst (get_deployment_notes r))) =
     set (values_of (fst (get_deployment_notes r')))"
  by (simp only: architecture_compliance_entries technical_features_entries
      error_handling_entries deployment_notes_entries simp_thms)

text \<open>
  C5. Each of the four methods takes the instance alone, returns on every instance, returns
  the dictionary it returns on the constructed instance (the result depends on nothing),
  and leaves the instance as it was.
\<close>

theorem accessors_pure:
  "get_architecture_compliance self =
     (fst (get_architecture_compliance CrumbleBakeryImplementation), self) \<and>
   get_technical_features self =
     (fst (get_technical_features CrumbleBakeryImplementation), self) \<and>
   get_error_handling self =
     (fst (get_error_handling CrumbleBakeryImplementation), self) \<and>
   get_deployment_notes self =
     (fst (get_deployment_notes CrumbleBakeryImplementation), self)"
  by (simp add: get_architecture_compliance_def get_technical_features_def
      get_error_handling_def get_deployment_notes_def)




text \<open>
  C8. A call of any of the four methods leaves the instance as it was; on the constructed
  instance the four attributes hold after the call the values \<^verbatim>\<open>__init__\<close> has set.
\<close>

theorem accessors_preserve_fields:
  "snd (get_architecture_compliance self) = self \<and>
   snd (get_technical_features self) = self \<and>
   snd (get_error_handling self) = self \<and>
   snd (get_deployment_notes self) = self \<and>
   list_all (\<lambda>r. project_name r = ''Crumble Bakery'' \<and> file_count r = 2 \<and>
                  max_lines_per_file r = 100 \<and> tech_stack r = [''HTML5'', ''CSS3''])
     [snd (get_architecture_compliance CrumbleBakeryImplementation),
      snd (get_technical_features CrumbleBakeryImplementation),
      snd (get_error_handling CrumbleBakeryImplementation),
      snd (get_deployment_notes CrumbleBakeryImplementation)]"
  by (simp add: accessor_self CrumbleBakeryImplementation_def)

end
